theory Spec2Isabelle
  imports Complex_Main "HOL-Library.Multiset"
begin

chapter \<open>The model\<close>

section \<open>Data model of the annotation page\<close>

text \<open>
  The TypeScript interface \<open>AnnotationEntity\<close> of \<open>AnnotationPage.tsx\<close> and of the
  validation component. Offsets are JavaScript numbers holding character offsets and are
  modelled as integers. The two optional fields are options; \<open>source\<close> is declared as the
  union of the string literals "llm" and "manual", but a value decoded from a JSON response
  can hold any string, so the field is a string here. The field \<open>text\<close> of the source
  is called \<open>etext\<close>.
\<close>

record AnnotationEntity =
  start_char :: int
  end_char :: int
  etext :: string
  label :: string
  confidence :: "real option"
  source :: "string option"

text \<open>
  The interface \<open>AnnotationTag\<close>; its field \<open>definition\<close> is called \<open>tag_definition\<close>.
\<close>

record AnnotationTag =
  tag_name :: string
  tag_definition :: string
  examples :: string

section \<open>Token recommendations\<close>

record TokenRecommendations =
  min_tokens :: int
  max_tokens_limit :: int
  default_tokens :: int
  input_tokens_estimate :: int

text \<open>
  The \<open>useMemo\<close> body of \<open>tokenRecommendations\<close>: \<open>Math.ceil\<close> and \<open>Math.floor\<close> of a
  quotient of numbers are the ceiling and the floor of the real quotient.
\<close>

definition tokenRecommendations :: "int \<Rightarrow> TokenRecommendations" where
  "tokenRecommendations chunkSize =
     (let inputTokens = \<lceil>real_of_int chunkSize / 4\<rceil>;
          minTokens = max 100 \<lfloor>real_of_int inputTokens / 2\<rfloor>;
          maxTokensLimit = min 4000 (inputTokens * 3);
          defaultTokens = min 2000 (inputTokens * 2)
      in \<lparr>min_tokens = minTokens,
          max_tokens_limit = maxTokensLimit,
          default_tokens = defaultTokens,
          input_tokens_estimate = inputTokens\<rparr>)"

section \<open>Combined entities\<close>

text \<open>
  \<open>combinedEntities\<close> spreads every LLM entity into a copy whose \<open>source\<close> is "llm" and
  every manual entity into a copy whose \<open>source\<close> is "manual", concatenates the two
  arrays and sorts the result with the comparator \<open>a.start_char - b.start_char\<close>.
  \<open>Array.prototype.sort\<close> is stable, so the result is the stable sort by the key
  \<open>start_char\<close>.
\<close>

definition combinedEntities :: "AnnotationEntity list \<Rightarrow> AnnotationEntity list \<Rightarrow> AnnotationEntity list" where
  "combinedEntities entities manualEntities =
     sort_key start_char
       (map (\<lambda>e. e\<lparr>source := Some ''llm''\<rparr>) entities @
        map (\<lambda>e. e\<lparr>source := Some ''manual''\<rparr>) manualEntities)"

text \<open>
  \<open>renderHighlightedText\<close> copies \<open>combinedEntities\<close> and sorts the copy again with the
  same comparator.
\<close>

definition sortedEntities :: "AnnotationEntity list \<Rightarrow> AnnotationEntity list \<Rightarrow> AnnotationEntity list" where
  "sortedEntities entities manualEntities = sort_key start_char (combinedEntities entities manualEntities)"

text \<open>
  Two spans intersect when their half-open ranges \<open>[start_char, end_char)\<close> share a
  position. A list of spans is free of overlaps when no two of its members intersect.
\<close>

definition ranges_intersect :: "AnnotationEntity \<Rightarrow> AnnotationEntity \<Rightarrow> bool" where
  "ranges_intersect a b \<longleftrightarrow> start_char a < end_char b \<and> start_char b < end_char a"

fun no_overlap :: "AnnotationEntity list \<Rightarrow> bool" where
  "no_overlap [] = True"
| "no_overlap (x # xs) = ((\<forall>y \<in> set xs. \<not> ranges_intersect x y) \<and> no_overlap xs)"

text \<open>
  The order "by start ascending, ties by end ascending": every span that comes earlier in
  the list has a smaller start, or the same start and an end that is not larger.
\<close>

definition start_then_end :: "AnnotationEntity \<Rightarrow> AnnotationEntity \<Rightarrow> bool" where
  "start_then_end a b \<longleftrightarrow>
     start_char a < start_char b \<or> (start_char a = start_char b \<and> end_char a \<le> end_char b)"

fun ordered_by_start_then_end :: "AnnotationEntity list \<Rightarrow> bool" where
  "ordered_by_start_then_end [] = True"
| "ordered_by_start_then_end (x # xs) =
     ((\<forall>y \<in> set xs. start_then_end x y) \<and> ordered_by_start_then_end xs)"

section \<open>State of the page and its handlers\<close>

text \<open>
  \<open>String.prototype.trim\<close> removes white space and line terminators from both ends.
  Strings are lists of 8-bit characters here, so the white space of JavaScript is
  represented up to U+00A0.
\<close>

definition js_whitespace :: "char \<Rightarrow> bool" where
  "js_whitespace c \<longleftrightarrow>
     c \<in> {CHR 0x09, CHR 0x0A, CHR 0x0B, CHR 0x0C, CHR 0x0D, CHR 0x20, CHR 0xA0}"

definition js_trim :: "string \<Rightarrow> string" where
  "js_trim s = rev (dropWhile js_whitespace (rev (dropWhile js_whitespace s)))"

text \<open>
  The part of the component state of \<open>AnnotationPage\<close> that the handlers below read or
  write, with the initial values of the \<open>useState\<close> calls.
\<close>

record PageState =
  page_text :: string
  tags :: "AnnotationTag list"
  entities :: "AnnotationEntity list"
  manualEntities :: "AnnotationEntity list"
  chunkSize :: int
  overlap :: int
  showSettings :: bool
  selectedText :: string
  selectedRange :: "(int \<times> int) option"

definition initial_state :: PageState where
  "initial_state =
     \<lparr>page_text = [], tags = [], entities = [], manualEntities = [],
      chunkSize = 1000, overlap = 50, showSettings = False,
      selectedText = [], selectedRange = None\<rparr>"

text \<open>
  \<open>handleAddManualAnnotation\<close>: returns at once when there is no selected range or the
  selected text is blank; otherwise appends the new entity to \<open>manualEntities\<close> and
  clears the selection.
\<close>

definition handleAddManualAnnotation :: "string \<Rightarrow> PageState \<Rightarrow> PageState" where
  "handleAddManualAnnotation lbl s =
     (case selectedRange s of
        None \<Rightarrow> s
      | Some r \<Rightarrow>
          if js_trim (selectedText s) = [] then s
          else
            let newEntity =
                  \<lparr>start_char = fst r, end_char = snd r, etext = selectedText s,
                   label = lbl, confidence = Some 1, source = Some ''manual''\<rparr>
            in s\<lparr>manualEntities := manualEntities s @ [newEntity],
                 selectedText := [], selectedRange := None\<rparr>)"

text \<open>
  The callback \<open>onEntitiesUpdate\<close> that the page hands to the validation component: the
  updated list is filtered twice, once for each source, and the two results replace the
  two lists of the state.
\<close>

definition onEntitiesUpdate :: "AnnotationEntity list \<Rightarrow> PageState \<Rightarrow> PageState" where
  "onEntitiesUpdate updatedEntities s =
     (let llmEntities = filter (\<lambda>e. source e = Some ''llm'') updatedEntities;
          manualEntitiesUpdated = filter (\<lambda>e. source e = Some ''manual'') updatedEntities
      in s\<lparr>entities := llmEntities, manualEntities := manualEntitiesUpdated\<rparr>)"

text \<open>
  A range input with attributes \<open>min\<close>, \<open>max\<close> and \<open>step\<close> offers the values
  \<open>min + k * step\<close> that do not exceed \<open>max\<close>; \<open>k\<close> is the position of the thumb.
\<close>

definition range_input :: "int \<Rightarrow> int \<Rightarrow> int \<Rightarrow> nat \<Rightarrow> int option" where
  "range_input lo hi stp k = (let v = lo + stp * int k in if v \<le> hi then Some v else None)"

text \<open>
  The events of the page: editing or loading the text, loading the tags, a successful
  answer to \<open>handleAnnotate\<close>, a mouse-up over the highlighted text that leaves a
  selection, a click on a tag button of the manual annotation panel, the callback of the
  validation component, the settings button and the two sliders.
\<close>

datatype event =
    SetText string
  | SetTags "AnnotationTag list"
  | AnnotateOk "AnnotationEntity list"
  | MouseUp string int int
  | ClickTag string
  | EntitiesUpdate "AnnotationEntity list"
  | ToggleSettings
  | ChunkSlider nat
  | OverlapSlider nat

text \<open>
  One event against the state. An event whose control is not rendered or is disabled, or
  whose handler returns early, leaves the state as it is:
  \<^item> \<open>handleAnnotate\<close> returns when the trimmed text is empty or there are no tags;
  \<^item> the \<open>onMouseUp\<close> handler exists only on the highlighted text, rendered when the text
    is non-empty and there is a combined entity, and it records a selection only when
    the trimmed selected string is non-empty;
  \<^item> the tag buttons are rendered when both the selected text and the selected range are
    set, one for every loaded tag;
  \<^item> the validation component, and with it the callback, is rendered when there is a
    combined entity;
  \<^item> the sliders are rendered when the settings are shown; the chunk size slider has
    \<open>min=200 max=4000 step=100\<close>, the overlap slider \<open>min=0 max=200 step=10\<close>.
\<close>

fun step :: "PageState \<Rightarrow> event \<Rightarrow> PageState" where
  "step s (SetText t) = s\<lparr>page_text := t\<rparr>"
| "step s (SetTags ts) = s\<lparr>tags := ts\<rparr>"
| "step s (AnnotateOk es) =
     (if js_trim (page_text s) = [] \<or> tags s = [] then s else s\<lparr>entities := es\<rparr>)"
| "step s (MouseUp sel a b) =
     (if page_text s \<noteq> [] \<and> combinedEntities (entities s) (manualEntities s) \<noteq> []
         \<and> js_trim sel \<noteq> []
      then s\<lparr>selectedText := sel, selectedRange := Some (a, b)\<rparr> else s)"
| "step s (ClickTag lbl) =
     (if selectedText s \<noteq> [] \<and> selectedRange s \<noteq> None \<and> lbl \<in> set (map tag_name (tags s))
      then handleAddManualAnnotation lbl s else s)"
| "step s (EntitiesUpdate es) =
     (if combinedEntities (entities s) (manualEntities s) \<noteq> [] then onEntitiesUpdate es s else s)"
| "step s ToggleSettings = s\<lparr>showSettings := \<not> showSettings s\<rparr>"
| "step s (ChunkSlider k) =
     (if showSettings s
      then (case range_input 200 4000 100 k of None \<Rightarrow> s | Some v \<Rightarrow> s\<lparr>chunkSize := v\<rparr>)
      else s)"
| "step s (OverlapSlider k) =
     (if showSettings s
      then (case range_input 0 200 10 k of None \<Rightarrow> s | Some v \<Rightarrow> s\<lparr>overlap := v\<rparr>)
      else s)"

definition run :: "event list \<Rightarrow> PageState" where
  "run evs = foldl step initial_state evs"

definition span_range :: "AnnotationEntity \<Rightarrow> int \<times> int" where
  "span_range e = (start_char e, end_char e)"

definition manual_ranges_distinct :: "PageState \<Rightarrow> bool" where
  "manual_ranges_distinct s = distinct (map span_range (manualEntities s))"

definition settings_in_range :: "PageState \<Rightarrow> bool" where
  "settings_in_range s \<longleftrightarrow>
     0 \<le> overlap s \<and> overlap s \<le> 200 \<and> 200 \<le> chunkSize s \<and> chunkSize s \<le> 4000"

section \<open>Entities as objects\<close>

text \<open>
  \<open>handleRemoveEntity\<close> compares entities with \<open>!==\<close>, that is by the identity of the
  objects, so this section keeps the objects in a store. An address is an index into the
  list of allocated objects; the two lists of the state hold addresses. A spread
  \<open>{ ...e, source: src }\<close> allocates a new object at the next free address.
\<close>

type_synonym addr = nat

record ObjState =
  objects :: "AnnotationEntity list"
  entity_refs :: "addr list"
  manual_refs :: "addr list"

text \<open>
  The \<open>map\<close> of \<open>combinedEntities\<close> over a list of addresses: the store grows by one copy
  for every element, and the addresses of the copies are returned.
\<close>

fun spread_all :: "string \<Rightarrow> AnnotationEntity list \<Rightarrow> addr list \<Rightarrow> AnnotationEntity list \<times> addr list" where
  "spread_all src h [] = (h, [])"
| "spread_all src h (r # rs) =
     (let (h', as) = spread_all src (h @ [(h ! r)\<lparr>source := Some src\<rparr>]) rs
      in (h', length h # as))"

definition combinedEntities_refs :: "ObjState \<Rightarrow> ObjState \<times> addr list" where
  "combinedEntities_refs st =
     (let (h1, ls) = spread_all ''llm'' (objects st) (entity_refs st);
          (h2, ms) = spread_all ''manual'' h1 (manual_refs st)
      in (st\<lparr>objects := h2\<rparr>, sort_key (\<lambda>a. start_char (h2 ! a)) (ls @ ms)))"

text \<open>
  \<open>handleRemoveEntity\<close>: the list chosen by the source of the argument is filtered with
  \<open>e !== entity\<close>.
\<close>

definition handleRemoveEntity :: "addr \<Rightarrow> ObjState \<Rightarrow> ObjState" where
  "handleRemoveEntity entity st =
     (if source (objects st ! entity) = Some ''manual''
      then st\<lparr>manual_refs := filter (\<lambda>e. e \<noteq> entity) (manual_refs st)\<rparr>
      else st\<lparr>entity_refs := filter (\<lambda>e. e \<noteq> entity) (entity_refs st)\<rparr>)"

text \<open>A reference held by the state refers to an allocated object.\<close>

definition refs_allocated :: "ObjState \<Rightarrow> bool" where
  "refs_allocated st \<longleftrightarrow>
     (\<forall>a \<in> set (entity_refs st) \<union> set (manual_refs st). a < length (objects st))"

section \<open>The fix handlers of the validation component\<close>

text \<open>
  The body of a response after \<open>response.json()\<close>, a value of JSON.
\<close>

datatype json =
    JNull
  | JBool bool
  | JNum real
  | JStr string
  | JArr "json list"
  | JObj "(string \<times> json) list"

text \<open>
  The property names that the two \<open>handleFix\<close> functions and the callback of the page
  read from a response.
\<close>

datatype prop_key =
    Key_fixed_entities
  | Key_fixed_annotations
  | Key_fix_statistics
  | Key_total
  | Key_already_correct
  | Key_fixed
  | Key_unfixable
  | Key_multiple_matches
  | Key_strategy_used
  | Key_length

fun key_name :: "prop_key \<Rightarrow> string" where
  "key_name Key_fixed_entities = ''fixed_entities''"
| "key_name Key_fixed_annotations = ''fixed_annotations''"
| "key_name Key_fix_statistics = ''fix_statistics''"
| "key_name Key_total = ''total''"
| "key_name Key_already_correct = ''already_correct''"
| "key_name Key_fixed = ''fixed''"
| "key_name Key_unfixable = ''unfixable''"
| "key_name Key_multiple_matches = ''multiple_matches''"
| "key_name Key_strategy_used = ''strategy_used''"
| "key_name Key_length = ''length''"

text \<open>
  What a property read yields: \<open>undefined\<close>, a value of the parsed body, or the one
  built-in function that carries one of the names above, the method \<open>fixed\<close> that every
  string inherits from \<open>String.prototype\<close>.
\<close>

datatype jsvalue = Undefined | Data json | StringPrototypeFixed

text \<open>
  Reading one of these properties from a parsed value other than \<open>null\<close> (of \<open>null\<close>
  the read throws, and the handlers below treat that case before they read). Of a parsed
  object the last member with the name counts, and none of the names is inherited from
  \<open>Object.prototype\<close>. Arrays and strings have a \<open>length\<close>; a string inherits \<open>fixed\<close>;
  numbers and booleans have none of the properties.
\<close>

fun get_prop :: "json \<Rightarrow> prop_key \<Rightarrow> jsvalue" where
  "get_prop (JObj kvs) k =
     (case map_of (rev kvs) (key_name k) of None \<Rightarrow> Undefined | Some v \<Rightarrow> Data v)"
| "get_prop (JArr xs) k = (if k = Key_length then Data (JNum (real (length xs))) else Undefined)"
| "get_prop (JStr s) k =
     (if k = Key_length then Data (JNum (real (length s)))
      else if k = Key_fixed then StringPrototypeFixed
      else Undefined)"
| "get_prop v k = Undefined"

text \<open>
  Reading one of the properties from a value that was read before and found truthy. The
  function \<open>String.prototype.fixed\<close> takes no argument, so its \<open>length\<close> is 0, and it has
  no other of the properties.
\<close>

fun read_value :: "jsvalue \<Rightarrow> prop_key \<Rightarrow> jsvalue" where
  "read_value (Data v) k = get_prop v k"
| "read_value StringPrototypeFixed k = (if k = Key_length then Data (JNum 0) else Undefined)"
| "read_value Undefined k = Undefined"

text \<open>The truth value that \<open>if (v)\<close> and \<open>v || w\<close> give to a value.\<close>

fun truthy :: "jsvalue \<Rightarrow> bool" where
  "truthy Undefined = False"
| "truthy (Data JNull) = False"
| "truthy (Data (JBool b)) = b"
| "truthy (Data (JNum n)) = (n \<noteq> 0)"
| "truthy (Data (JStr s)) = (s \<noteq> [])"
| "truthy (Data (JArr xs)) = True"
| "truthy (Data (JObj kvs)) = True"
| "truthy StringPrototypeFixed = True"

text \<open>The expression \<open>v || 0\<close>.\<close>

definition or_zero :: "jsvalue \<Rightarrow> jsvalue" where
  "or_zero v = (if truthy v then v else Data (JNum 0))"

text \<open>The expression \<open>v?.length\<close>: \<open>undefined\<close> for \<open>undefined\<close> and \<open>null\<close>.\<close>

fun optional_length :: "jsvalue \<Rightarrow> jsvalue" where
  "optional_length Undefined = Undefined"
| "optional_length (Data JNull) = Undefined"
| "optional_length v = read_value v Key_length"

text \<open>
  The callback that the page passes as \<open>onEntitiesUpdate\<close> calls \<open>filter\<close> on its argument
  and reads \<open>e.source\<close> of every element: it returns when the argument is an array
  without a \<open>null\<close> and throws a \<open>TypeError\<close> otherwise.
\<close>

fun callback_returns :: "jsvalue \<Rightarrow> bool" where
  "callback_returns (Data (JArr xs)) = (JNull \<notin> set xs)"
| "callback_returns v = False"

text \<open>
  What a run of \<open>handleFix\<close> does after the request: the value it hands to
  \<open>onEntitiesUpdate\<close>, the value it stores with \<open>setValidationResult\<close>, and the alert it
  shows. The alert with the fix results interpolates six values of the statistics.
\<close>

record shown_statistics =
  shown_total :: jsvalue
  shown_already_correct :: jsvalue
  shown_fixed :: jsvalue
  shown_unfixable :: jsvalue
  shown_multiple_matches :: jsvalue
  shown_strategy_used :: jsvalue

datatype alert = FixFailed | FixCompleted shown_statistics | FixUpdated jsvalue

record fix_effects =
  onEntitiesUpdate_arg :: "jsvalue option"
  validation_result :: "json option"
  alert_shown :: "alert option"

definition no_effects :: fix_effects where
  "no_effects = \<lparr>onEntitiesUpdate_arg = None, validation_result = None, alert_shown = None\<rparr>"

definition fix_failed :: fix_effects where
  "fix_failed =
     \<lparr>onEntitiesUpdate_arg = None, validation_result = None, alert_shown = Some FixFailed\<rparr>"


text \<open>The six reads of \<open>stats\<close> in the message of the second \<open>handleFix\<close>.\<close>

definition read_statistics :: "jsvalue \<Rightarrow> shown_statistics" where
  "read_statistics stats =
     \<lparr>shown_total = read_value stats Key_total,
      shown_already_correct = read_value stats Key_already_correct,
      shown_fixed = read_value stats Key_fixed,
      shown_unfixable = read_value stats Key_unfixable,
      shown_multiple_matches = or_zero (read_value stats Key_multiple_matches),
      shown_strategy_used = read_value stats Key_strategy_used\<rparr>"

text \<open>
  \<open>handleFix\<close> of the second validation component: the entities are updated from
  \<open>result.fixed_annotations\<close> when that is truthy, then the alert shows the statistics of
  \<open>result.fix_statistics\<close> when that is truthy and the number of fixed annotations
  otherwise.
\<close>

definition handleFix_second :: "AnnotationEntity list \<Rightarrow> bool \<Rightarrow> json \<Rightarrow> fix_effects" where
  "handleFix_second ents ok result =
     (if ents = [] then no_effects
      else if \<not> ok \<or> result = JNull then fix_failed
      else
        let fa = get_prop result Key_fixed_annotations;
            stats = get_prop result Key_fix_statistics
        in if truthy fa \<and> \<not> callback_returns fa then fix_failed
           else
             \<lparr>onEntitiesUpdate_arg = (if truthy fa then Some fa else None),
              validation_result = None,
              alert_shown =
                Some (if truthy stats then FixCompleted (read_statistics stats)
                      else FixUpdated (or_zero (optional_length fa)))\<rparr>)"

section \<open>The Span Fixer\<close>

text \<open>
  The validation component posts the text and the entities to the fix endpoint; the
  Fixer that answers belongs to the backend service, of which the frontend sources hold
  only the caller. Its definitions below are written from the specification (sections
  4.2, 4.3 and 7); spans are entities.
\<close>

text \<open>
  Modelled from the spec: the substring \<open>text[start:end]\<close> that the Validator and the Fixer
  take from the original text, which is missing from the sources.
\<close>

definition slice :: "string \<Rightarrow> int \<Rightarrow> int \<Rightarrow> string" where
  "slice t s e = take (nat (e - s)) (drop (nat s) t)"

text \<open>
  Modelled from the spec: the range check of the missing Span Validator, "start, end are
  non-negative integers, start < end, end <= len(text)".
\<close>

definition range_check :: "string \<Rightarrow> AnnotationEntity \<Rightarrow> bool" where
  "range_check t sp \<longleftrightarrow>
     0 \<le> start_char sp \<and> start_char sp < end_char sp \<and> end_char sp \<le> int (length t)"

text \<open>
  Modelled from the spec: the content check of the missing Span Validator,
  "text[start:end] == span.text (exact, case-sensitive, no trimming)".
\<close>

definition content_check :: "string \<Rightarrow> AnnotationEntity \<Rightarrow> bool" where
  "content_check t sp \<longleftrightarrow> slice t (start_char sp) (end_char sp) = etext sp"

text \<open>
  Modelled from the spec: the re-validation of the missing Span Fixer. The fix request
  carries the text, the annotations and a strategy but no tag definitions, so the label
  check is not part of it.
\<close>

definition validates :: "string \<Rightarrow> AnnotationEntity \<Rightarrow> bool" where
  "validates t sp \<longleftrightarrow> range_check t sp \<and> content_check t sp"

text \<open>
  Modelled from the spec: the positions of the exact occurrences of a string in the
  original text, in ascending order, as the missing exact re-search finds them.
\<close>

definition occurrences :: "string \<Rightarrow> string \<Rightarrow> nat list" where
  "occurrences needle t =
     filter (\<lambda>p. take (length needle) (drop p t) = needle)
       [0 ..< Suc (length t) - length needle]"

text \<open>
  Modelled from the spec: the choice among several occurrences in the missing Fixer, "the
  occurrence whose offset is closest to the span's originally reported start (tie-break:
  smallest offset)". The positions are given in ascending order.
\<close>

fun closest_to :: "int \<Rightarrow> nat list \<Rightarrow> nat option" where
  "closest_to s [] = None"
| "closest_to s (p # ps) =
     (case closest_to s ps of
        None \<Rightarrow> Some p
      | Some q \<Rightarrow> if \<bar>int p - s\<bar> \<le> \<bar>int q - s\<bar> then Some p else Some q)"

text \<open>
  Modelled from the spec: the relocation of a span in the missing Fixer, "fixable spans
  relocated with text recomputed from the new offsets".
\<close>

definition relocate :: "string \<Rightarrow> AnnotationEntity \<Rightarrow> nat \<Rightarrow> nat \<Rightarrow> AnnotationEntity" where
  "relocate t sp s e =
     sp\<lparr>start_char := int s, end_char := int e, etext := slice t (int s) (int e)\<rparr>"

text \<open>
  Modelled from the spec: the strategies by which the missing Fixer resolves a span, and
  the classification of a span. The strategy \<open>closest_occurrence\<close> records the number of
  occurrences that were found.
\<close>

datatype strategy = exact_match | closest_occurrence nat | fuzzy_match

datatype outcome = AlreadyCorrect | Fixed strategy | Unfixable

text \<open>
  Modelled from the spec: the exact re-search of the missing Fixer. One occurrence is an
  \<open>exact_match\<close>; among several the closest to the reported start is taken.
\<close>

definition exact_research :: "string \<Rightarrow> AnnotationEntity \<Rightarrow> (nat \<times> nat \<times> strategy) option" where
  "exact_research t sp =
     (let occs = occurrences (etext sp) t
      in case closest_to (start_char sp) occs of
           None \<Rightarrow> None
         | Some p \<Rightarrow>
             Some (p, p + length (etext sp),
                   if length occs = 1 then exact_match else closest_occurrence (length occs)))"

text \<open>
  Modelled from the spec: the punctuation that the boundary snap of the missing Fixer
  trims, here the punctuation of ASCII.
\<close>

definition punctuation :: "char \<Rightarrow> bool" where
  "punctuation c \<longleftrightarrow>
     (let n = (of_char c :: nat)
      in (33 \<le> n \<and> n \<le> 47) \<or> (58 \<le> n \<and> n \<le> 64) \<or> (91 \<le> n \<and> n \<le> 96) \<or>
         (123 \<le> n \<and> n \<le> 126))"

text \<open>
  Modelled from the spec: the "whitespace/punctuation-trimmed version of span.text" of the
  missing boundary snap.
\<close>

definition trim_boundary :: "string \<Rightarrow> string" where
  "trim_boundary s =
     rev (dropWhile (\<lambda>c. js_whitespace c \<or> punctuation c)
       (rev (dropWhile (\<lambda>c. js_whitespace c \<or> punctuation c) s)))"

text \<open>
  Modelled from the spec: the boundary snap of the missing Fixer in the form that the
  specification gives as the minimum: the trimmed text is searched within a window around
  the reported start, and the closest occurrence is the match.
\<close>

definition boundary_snap :: "nat \<Rightarrow> string \<Rightarrow> AnnotationEntity \<Rightarrow> (nat \<times> nat) option" where
  "boundary_snap window t sp =
     (let trimmed = trim_boundary (etext sp)
      in if trimmed = [] then None
         else
           (case closest_to (start_char sp)
                   (filter (\<lambda>p. \<bar>int p - start_char sp\<bar> \<le> int window)
                      (occurrences trimmed t)) of
              None \<Rightarrow> None
            | Some p \<Rightarrow> Some (p, p + length trimmed)))"

text \<open>
  Modelled from the spec: the treatment of one span by the missing Fixer, in the fixed
  order of section 4.3. A span that validates is already correct. A span with
  \<open>start > end\<close> is unfixable at once. Otherwise the exact re-search is tried and, when
  the text does not occur, the fuzzy match. The specification leaves the fuzzy match
  open, so it is the parameter \<open>snap\<close>, which proposes new offsets. A span is never
  emitted with wrong offsets: a proposal is taken when the relocated span passes the
  range check, and the span is unfixable otherwise.
\<close>

definition fix_span ::
  "(string \<Rightarrow> AnnotationEntity \<Rightarrow> (nat \<times> nat) option) \<Rightarrow> string \<Rightarrow> AnnotationEntity
     \<Rightarrow> AnnotationEntity option \<times> outcome" where
  "fix_span snap t sp =
     (if validates t sp then (Some sp, AlreadyCorrect)
      else if end_char sp < start_char sp then (None, Unfixable)
      else
        (case exact_research t sp of
           Some (s, e, how) \<Rightarrow>
             if range_check t (relocate t sp s e) then (Some (relocate t sp s e), Fixed how)
             else (None, Unfixable)
         | None \<Rightarrow>
             (case snap t sp of
                Some (s, e) \<Rightarrow>
                  if range_check t (relocate t sp s e)
                  then (Some (relocate t sp s e), Fixed fuzzy_match)
                  else (None, Unfixable)
              | None \<Rightarrow> (None, Unfixable))))"

text \<open>
  Modelled from the spec: the answer of the missing fix operation,
  \<open>{fixed_entities[], fix_statistics{total, already_correct, fixed, unfixable,
  multiple_matches, strategy_used}}\<close>. The field \<open>total\<close> is called \<open>total_spans\<close>;
  \<open>strategy_used\<close> lists the strategy that resolved each fixed span.
\<close>

record fix_statistics =
  total_spans :: nat
  already_correct :: nat
  fixed :: nat
  unfixable :: nat
  multiple_matches :: nat
  strategy_used :: "strategy list"

record fix_result =
  fixed_entities :: "AnnotationEntity list"
  fix_statistics :: fix_statistics

text \<open>
  Modelled from the spec: what one outcome adds to \<open>strategy_used\<close> and to
  \<open>multiple_matches\<close> in the statistics of the missing Fixer.
\<close>

fun strategy_of :: "outcome \<Rightarrow> strategy list" where
  "strategy_of (Fixed how) = [how]"
| "strategy_of other = []"

fun matches_of :: "outcome \<Rightarrow> nat" where
  "matches_of (Fixed (closest_occurrence n)) = n"
| "matches_of other = 0"

text \<open>
  Modelled from the spec: the missing fix operation over a batch. Every span is treated on
  its own; the fixed set holds the valid and the relocated spans in their order and omits
  the unfixable ones; the statistics count the outcomes.
\<close>

definition fixer ::
  "(string \<Rightarrow> AnnotationEntity \<Rightarrow> (nat \<times> nat) option) \<Rightarrow> string \<Rightarrow> AnnotationEntity list
     \<Rightarrow> fix_result" where
  "fixer snap t spans =
     (let results = map (fix_span snap t) spans;
          outcomes = map snd results
      in \<lparr>fixed_entities =
            concat (map (\<lambda>r. case fst r of None \<Rightarrow> [] | Some sp \<Rightarrow> [sp]) results),
          fix_statistics =
            \<lparr>total_spans = length spans,
             already_correct = length (filter (\<lambda>out. out = AlreadyCorrect) outcomes),
             fixed = length (filter (\<lambda>out. out \<noteq> AlreadyCorrect \<and> out \<noteq> Unfixable) outcomes),
             unfixable = length (filter (\<lambda>out. out = Unfixable) outcomes),
             multiple_matches = sum_list (map matches_of outcomes),
             strategy_used = concat (map strategy_of outcomes)\<rparr>\<rparr>)"

section \<open>Example data\<close>

text \<open>
  The spans of the fourth scenario: a manual span over \<open>[10, 20)\<close> and a model span over
  \<open>[15, 25)\<close>.
\<close>

definition llm_span :: AnnotationEntity where
  "llm_span = \<lparr>start_char = 15, end_char = 25, etext = ''0123456789'', label = ''ORG'',
               confidence = None, source = None\<rparr>"

definition manual_span :: AnnotationEntity where
  "manual_span = \<lparr>start_char = 10, end_char = 20, etext = ''0123456789'', label = ''ORG'',
                  confidence = Some 1, source = Some ''manual''\<rparr>"

text \<open>Two model spans that start at the same offset, the longer one first.\<close>

definition long_span :: AnnotationEntity where
  "long_span = \<lparr>start_char = 0, end_char = 9, etext = ''Acme Corp'', label = ''ORG'',
                confidence = None, source = None\<rparr>"

definition short_span :: AnnotationEntity where
  "short_span = \<lparr>start_char = 0, end_char = 4, etext = ''Acme'', label = ''ORG'',
                 confidence = None, source = None\<rparr>"

text \<open>
  A session on the text of the first scenario: the text is entered, one tag is loaded, the
  annotator answers with one span, and the user selects the first word and labels it.
\<close>

definition org_tag :: AnnotationTag where
  "org_tag = \<lparr>tag_name = ''ORG'', tag_definition = ''an organisation'', examples = ''Acme Corp''\<rparr>"

definition corp_span :: AnnotationEntity where
  "corp_span = \<lparr>start_char = 5, end_char = 9, etext = ''Corp'', label = ''ORG'',
                confidence = None, source = None\<rparr>"

definition acme_manual :: AnnotationEntity where
  "acme_manual = \<lparr>start_char = 0, end_char = 4, etext = ''Acme'', label = ''ORG'',
                  confidence = Some 1, source = Some ''manual''\<rparr>"

definition select_acme :: "event list" where
  "select_acme =
     [SetText ''Acme Corp develops gene therapies.'', SetTags [org_tag], AnnotateOk [corp_span],
      MouseUp ''Acme'' 0 4]"

text \<open>The same word is labelled, selected again and labelled again.\<close>

definition select_acme_again :: "event list" where
  "select_acme_again = select_acme @ [ClickTag ''ORG'', MouseUp ''Acme'' 0 4]"

definition select_acme_twice :: "event list" where
  "select_acme_twice = select_acme_again @ [ClickTag ''ORG'']"

text \<open>The settings are opened and both sliders are moved to where their ranges meet.\<close>

definition smallest_chunk_largest_overlap :: "event list" where
  "smallest_chunk_largest_overlap = [ToggleSettings, ChunkSlider 0, OverlapSlider 20]"

text \<open>An answer of the fix endpoint that holds a span without a source.\<close>

definition fixed_without_source :: "AnnotationEntity list" where
  "fixed_without_source = [acme_manual, corp_span\<lparr>source := Some ''llm''\<rparr>, short_span]"

text \<open>A store with one LLM entity and one manual entity.\<close>

definition two_objects :: ObjState where
  "two_objects = \<lparr>objects = [corp_span, acme_manual], entity_refs = [0], manual_refs = [1]\<rparr>"

text \<open>
  Two answers of the fix endpoint with the same span and the same statistics: one carries
  the repaired spans under \<open>fixed_entities\<close>, the other under \<open>fixed_annotations\<close>.
\<close>

definition corp_json :: json where
  "corp_json =
     JObj [(''start_char'', JNum 5), (''end_char'', JNum 9), (''text'', JStr ''Corp''),
           (''label'', JStr ''ORG''), (''source'', JStr ''llm'')]"

definition statistics_json :: json where
  "statistics_json =
     JObj [(''total'', JNum 1), (''already_correct'', JNum 1), (''fixed'', JNum 0),
           (''unfixable'', JNum 0), (''multiple_matches'', JNum 0),
           (''strategy_used'', JStr ''fuzzy_match'')]"


definition response_with_fixed_annotations :: json where
  "response_with_fixed_annotations =
     JObj [(''fixed_annotations'', JArr [corp_json]), (''fix_statistics'', statistics_json)]"

text \<open>
  The text of the scenarios with a span whose end is off by one, a span whose text does
  not occur, and a text that holds the same word at the offsets 0 and 40.
\<close>

definition sentence :: string where
  "sentence = ''Acme Corp develops gene therapies.''"

definition off_by_one :: AnnotationEntity where
  "off_by_one = \<lparr>start_char = 0, end_char = 5, etext = ''Acme'', label = ''ORG'',
                 confidence = None, source = Some ''llm''\<rparr>"

definition not_in_text :: AnnotationEntity where
  "not_in_text = \<lparr>start_char = 3, end_char = 7, etext = ''Zeta'', label = ''ORG'',
                  confidence = None, source = Some ''llm''\<rparr>"

definition two_acmes :: string where
  "two_acmes = ''Acme Corp develops gene therapies today Acme grows.''"

definition near_second :: AnnotationEntity where
  "near_second = \<lparr>start_char = 38, end_char = 42, etext = ''Acme'', label = ''ORG'',
                  confidence = None, source = Some ''llm''\<rparr>"

chapter \<open>Properties\<close>

section \<open>Token recommendations are ordered\<close>

lemma inputTokens_div: "\<lceil>real_of_int c / 4\<rceil> = - ((- c) div 4)"
  using ceiling_divide_eq_div [of c 4] by simp

lemma half_floor_div: "\<lfloor>real_of_int i / 2\<rfloor> = i div 2"
  using floor_divide_of_int_eq [of i 2] by simp

lemma tokenRecommendations_fields:
  "min_tokens (tokenRecommendations c) = max 100 ((- ((- c) div 4)) div 2)"
  "default_tokens (tokenRecommendations c) = min 2000 ((- ((- c) div 4)) * 2)"
  "max_tokens_limit (tokenRecommendations c) = min 4000 ((- ((- c) div 4)) * 3)"
  "input_tokens_estimate (tokenRecommendations c) = - ((- c) div 4)"
  by (simp_all add: tokenRecommendations_def Let_def inputTokens_div half_floor_div)

text \<open>
  C10. For every chunk size from 200 to 4000 the three recommendations are ordered,
  \<open>min_tokens \<le> default_tokens \<le> max_tokens_limit\<close>; for every chunk size below 134
  the ordering fails.
\<close>

theorem tokenRecommendations_ordered:
  "(200 \<le> c \<and> c \<le> 4000 \<longrightarrow>
      min_tokens (tokenRecommendations c) \<le> default_tokens (tokenRecommendations c) \<and>
      default_tokens (tokenRecommendations c) \<le> max_tokens_limit (tokenRecommendations c)) \<and>
   (c < 134 \<longrightarrow>
      \<not> (min_tokens (tokenRecommendations c) \<le> default_tokens (tokenRecommendations c) \<and>
         default_tokens (tokenRecommendations c) \<le> max_tokens_limit (tokenRecommendations c)))"
proof -
  define i where "i = - ((- c) div 4)"
  have lo: "200 \<le> c \<Longrightarrow> 50 \<le> i" and hi: "c < 134 \<Longrightarrow> i \<le> 34"
    unfolding i_def by linarith+
  have half: "i div 2 \<le> i * 2" if "0 \<le> i"
    using that by linarith
  have inside: "max 100 (i div 2) \<le> min 2000 (i * 2) \<and> min 2000 (i * 2) \<le> min 4000 (i * 3)"
    if "50 \<le> i" "c \<le> 4000"
  proof -
    have "i \<le> 1000" using that(2) unfolding i_def by linarith
    with that(1) half show ?thesis by (auto simp add: max_def min_def)
  qed
  have outside: "\<not> (max 100 (i div 2) \<le> min 2000 (i * 2) \<and> min 2000 (i * 2) \<le> min 4000 (i * 3))"
    if "i \<le> 34"
    using that by (auto simp add: max_def min_def)
  show ?thesis
    unfolding tokenRecommendations_fields i_def [symmetric]
    using lo hi inside outside by blast
qed

theorem tokenRecommendations_ordered_witness:
  "(200 \<le> (1000::int) \<and> (1000::int) \<le> 4000) \<and>
   min_tokens (tokenRecommendations 1000) = 125 \<and>
   default_tokens (tokenRecommendations 1000) = 500 \<and>
   max_tokens_limit (tokenRecommendations 1000) = 750 \<and>
   min_tokens (tokenRecommendations 1000) \<le> default_tokens (tokenRecommendations 1000) \<and>
   default_tokens (tokenRecommendations 1000) \<le> max_tokens_limit (tokenRecommendations 1000) \<and>
   (100::int) < 134 \<and>
   min_tokens (tokenRecommendations 100) = 100 \<and>
   default_tokens (tokenRecommendations 100) = 50"
  using tokenRecommendations_ordered [of 1000] tokenRecommendations_ordered [of 100]
  by (simp add: tokenRecommendations_fields)


section \<open>Example sessions\<close>

lemma js_trim_Acme: "js_trim ''Acme'' = ''Acme''"
  by (simp add: js_trim_def js_whitespace_def)

lemma js_trim_sentence: "js_trim ''Acme Corp develops gene therapies.'' \<noteq> []"
  by (simp add: js_trim_def js_whitespace_def)

lemma run_select_acme:
  "run select_acme =
     initial_state\<lparr>page_text := ''Acme Corp develops gene therapies.'', tags := [org_tag],
       entities := [corp_span], selectedText := ''Acme'', selectedRange := Some (0, 4)\<rparr>"
  by (simp add: run_def select_acme_def initial_state_def combinedEntities_def
      js_trim_Acme js_trim_sentence)

lemma run_select_acme_again:
  "run select_acme_again =
     initial_state\<lparr>page_text := ''Acme Corp develops gene therapies.'', tags := [org_tag],
       entities := [corp_span], manualEntities := [acme_manual],
       selectedText := ''Acme'', selectedRange := Some (0, 4)\<rparr>"
proof -
  have "run select_acme_again = foldl step (run select_acme) [ClickTag ''ORG'', MouseUp ''Acme'' 0 4]"
    by (simp add: run_def select_acme_again_def)
  then show ?thesis
    by (simp add: run_select_acme initial_state_def combinedEntities_def
        handleAddManualAnnotation_def js_trim_Acme org_tag_def acme_manual_def)
qed

lemma run_select_acme_twice:
  "manualEntities (run select_acme_twice) = [acme_manual, acme_manual]"
proof -
  have "run select_acme_twice = step (run select_acme_again) (ClickTag ''ORG'')"
    by (simp add: run_def select_acme_twice_def)
  then show ?thesis
    by (simp add: run_select_acme_again initial_state_def
        handleAddManualAnnotation_def js_trim_Acme org_tag_def acme_manual_def)
qed

lemma run_smallest_chunk_largest_overlap:
  "chunkSize (run smallest_chunk_largest_overlap) = 200"
  "overlap (run smallest_chunk_largest_overlap) = 200"
  by (simp_all add: run_def smallest_chunk_largest_overlap_def initial_state_def range_input_def)

section \<open>The combined span set\<close>

lemma ranges_intersect_sym: "ranges_intersect a b = ranges_intersect b a"
  by (auto simp add: ranges_intersect_def)

lemma ranges_intersect_source [simp]:
  "ranges_intersect (a\<lparr>source := u\<rparr>) b = ranges_intersect a b"
  "ranges_intersect a (b\<lparr>source := u\<rparr>) = ranges_intersect a b"
  by (simp_all add: ranges_intersect_def)

lemma no_overlap_insort: "no_overlap (insort_key f x xs) = no_overlap (x # xs)"
proof (induction xs)
  case Nil
  then show ?case by simp
next
  case (Cons y ys)
  then show ?case
    using ranges_intersect_sym by (auto simp add: set_insort_key)
qed

lemma no_overlap_sort_key: "no_overlap (sort_key f xs) = no_overlap xs"
proof (induction xs)
  case Nil
  then show ?case by simp
next
  case (Cons x xs)
  then show ?case by (simp add: no_overlap_insort)
qed

lemma no_overlap_append:
  "no_overlap (xs @ ys) \<longleftrightarrow>
     no_overlap xs \<and> no_overlap ys \<and> (\<forall>x \<in> set xs. \<forall>y \<in> set ys. \<not> ranges_intersect x y)"
  by (induction xs) auto

lemma no_overlap_map_source: "no_overlap (map (\<lambda>e. e\<lparr>source := u\<rparr>) xs) = no_overlap xs"
  by (induction xs) auto

text \<open>
  C1, as the claim states it, fails: \<open>combinedEntities\<close> keeps both spans of the fourth
  scenario, and they intersect.
\<close>

theorem combinedEntities_overlap_counterexample:
  "\<not> no_overlap (combinedEntities [llm_span] [manual_span])"
  by (simp add: combinedEntities_def llm_span_def manual_span_def ranges_intersect_def)

text \<open>
  C1, amended. \<open>combinedEntities\<close> drops no span: its output holds every LLM span and
  every manual span once, tagged with its source, so the output is free of overlaps exactly
  when the spans of the two input lists are.
\<close>

theorem combinedEntities_keeps_every_span:
  "mset (combinedEntities es ms) =
     mset (map (\<lambda>e. e\<lparr>source := Some ''llm''\<rparr>) es) +
     mset (map (\<lambda>e. e\<lparr>source := Some ''manual''\<rparr>) ms) \<and>
   length (combinedEntities es ms) = length es + length ms \<and>
   (no_overlap (combinedEntities es ms) \<longleftrightarrow> no_overlap (es @ ms))"
proof -
  have "no_overlap (combinedEntities es ms) \<longleftrightarrow> no_overlap (es @ ms)"
    unfolding combinedEntities_def no_overlap_sort_key
    by (auto simp add: no_overlap_append no_overlap_map_source)
  then show ?thesis
    by (simp add: combinedEntities_def)
qed

theorem combinedEntities_keeps_every_span_witness:
  "combinedEntities [llm_span] [manual_span] =
     [manual_span, llm_span\<lparr>source := Some ''llm''\<rparr>] \<and>
   length (combinedEntities [llm_span] [manual_span]) = 2 \<and>
   \<not> no_overlap ([llm_span] @ [manual_span])"
  using combinedEntities_keeps_every_span [of "[llm_span]" "[manual_span]"]
  by (simp add: combinedEntities_def llm_span_def manual_span_def ranges_intersect_def)

text \<open>
  C3, as the claim states it, fails: two spans with the same start stay in the order of
  the input, here the longer before the shorter.
\<close>

theorem combinedEntities_tie_counterexample:
  "\<not> ordered_by_start_then_end (combinedEntities [long_span, short_span] [])"
  by (simp add: combinedEntities_def long_span_def short_span_def start_then_end_def)

text \<open>
  C3, amended. The combined spans are sorted by \<open>start_char\<close> ascending and by nothing
  else: the spans with one and the same start keep the order they have in the input, LLM
  spans before manual spans. The second sort of \<open>renderHighlightedText\<close> changes nothing.
\<close>

theorem combinedEntities_sorted_by_start:
  "sorted (map start_char (combinedEntities es ms)) \<and>
   (\<forall>k. filter (\<lambda>e. start_char e = k) (combinedEntities es ms) =
        filter (\<lambda>e. start_char e = k)
          (map (\<lambda>e. e\<lparr>source := Some ''llm''\<rparr>) es @
           map (\<lambda>e. e\<lparr>source := Some ''manual''\<rparr>) ms)) \<and>
   sortedEntities es ms = combinedEntities es ms"
  by (simp add: combinedEntities_def sortedEntities_def sort_key_stable sort_key_id_if_sorted)

theorem combinedEntities_sorted_by_start_witness:
  "combinedEntities [long_span, short_span] [] =
     [long_span\<lparr>source := Some ''llm''\<rparr>, short_span\<lparr>source := Some ''llm''\<rparr>] \<and>
   sorted (map start_char (combinedEntities [long_span, short_span] [])) \<and>
   sortedEntities [long_span, short_span] [] = combinedEntities [long_span, short_span] []"
  using combinedEntities_sorted_by_start [of "[long_span, short_span]" "[]"]
  by (simp add: combinedEntities_def long_span_def short_span_def)

section \<open>Manual annotations\<close>

text \<open>
  C4, as the claim states it, fails: the user labels a word, selects the same word again
  and labels it again; the state then holds two manual spans with the same offsets.
\<close>

theorem duplicate_manual_span_counterexample:
  "\<not> manual_ranges_distinct (run select_acme_twice)"
  by (simp add: manual_ranges_distinct_def run_select_acme_twice acme_manual_def span_range_def)

text \<open>
  C4, amended. With a range selected and a selected text that is not blank,
  \<open>handleAddManualAnnotation\<close> appends one manual span with the selected offsets whatever
  the list holds already, so the manual spans stay pairwise different in their offsets
  exactly when they were so before and the selected offsets are not among them. The
  handler clears the selection, so calling it again without a new selection adds nothing.
\<close>

theorem add_manual_appends_selected_range:
  assumes "selectedRange s = Some (a, b)" and "js_trim (selectedText s) \<noteq> []"
  shows "map span_range (manualEntities (handleAddManualAnnotation lbl s)) =
           map span_range (manualEntities s) @ [(a, b)] \<and>
         (manual_ranges_distinct (handleAddManualAnnotation lbl s) \<longleftrightarrow>
            manual_ranges_distinct s \<and> (a, b) \<notin> set (map span_range (manualEntities s))) \<and>
         selectedRange (handleAddManualAnnotation lbl s) = None \<and>
         handleAddManualAnnotation lbl' (handleAddManualAnnotation lbl s) =
           handleAddManualAnnotation lbl s"
  using assms
  by (auto simp add: handleAddManualAnnotation_def Let_def manual_ranges_distinct_def span_range_def)

theorem add_manual_appends_selected_range_witness:
  "selectedRange (run select_acme_again) = Some (0, 4) \<and>
   js_trim (selectedText (run select_acme_again)) \<noteq> [] \<and>
   map span_range (manualEntities (handleAddManualAnnotation ''ORG'' (run select_acme_again))) =
     [(0, 4), (0, 4)] \<and>
   \<not> manual_ranges_distinct (handleAddManualAnnotation ''ORG'' (run select_acme_again))"
proof -
  have r: "selectedRange (run select_acme_again) = Some (0, 4)"
    by (simp add: run_select_acme_again)
  have t: "js_trim (selectedText (run select_acme_again)) \<noteq> []"
    by (simp add: run_select_acme_again js_trim_Acme)
  from add_manual_appends_selected_range [OF r t, of "''ORG''" "''ORG''"] r t show ?thesis
    by (simp add: run_select_acme_again acme_manual_def span_range_def)
qed

text \<open>
  C7. Whatever the selection and the label, the entity that \<open>handleAddManualAnnotation\<close>
  creates has confidence 1.0 and source "manual".
\<close>

theorem manual_annotation_confidence:
  assumes "selectedRange s = Some (a, b)" and "js_trim (selectedText s) \<noteq> []"
  shows "manualEntities (handleAddManualAnnotation lbl s) =
           manualEntities s @
             [\<lparr>start_char = a, end_char = b, etext = selectedText s, label = lbl,
               confidence = Some 1, source = Some ''manual''\<rparr>]"
  using assms by (simp add: handleAddManualAnnotation_def Let_def)

theorem manual_annotation_confidence_witness:
  "selectedRange (run select_acme) = Some (0, 4) \<and>
   js_trim (selectedText (run select_acme)) \<noteq> [] \<and>
   manualEntities (handleAddManualAnnotation ''ORG'' (run select_acme)) =
     [\<lparr>start_char = 0, end_char = 4, etext = ''Acme'', label = ''ORG'',
       confidence = Some 1, source = Some ''manual''\<rparr>]"
proof -
  have r: "selectedRange (run select_acme) = Some (0, 4)"
    by (simp add: run_select_acme)
  have t: "js_trim (selectedText (run select_acme)) \<noteq> []"
    by (simp add: run_select_acme js_trim_Acme)
  from manual_annotation_confidence [OF r t, of "''ORG''"] r t show ?thesis
    by (simp add: run_select_acme initial_state_def)
qed

section \<open>Writing fixed entities back\<close>

text \<open>
  C9. \<open>onEntitiesUpdate\<close> keeps the entities whose source is "llm" or "manual" and drops
  every other one: the two lists of the new state together hold the updated entities
  only when each of these carries one of the two sources.
\<close>

theorem entities_update_drops_other_sources:
  "(set (entities (onEntitiesUpdate us s)) \<union> set (manualEntities (onEntitiesUpdate us s)) = set us
      \<longleftrightarrow> (\<forall>e \<in> set us. source e = Some ''llm'' \<or> source e = Some ''manual'')) \<and>
   (\<forall>e \<in> set us. source e \<noteq> Some ''llm'' \<and> source e \<noteq> Some ''manual'' \<longrightarrow>
      e \<notin> set (entities (onEntitiesUpdate us s)) \<and>
      e \<notin> set (manualEntities (onEntitiesUpdate us s)))"
  by (auto simp add: onEntitiesUpdate_def Let_def)

theorem entities_update_drops_other_sources_witness:
  "entities (onEntitiesUpdate fixed_without_source initial_state) = [corp_span\<lparr>source := Some ''llm''\<rparr>] \<and>
   manualEntities (onEntitiesUpdate fixed_without_source initial_state) = [acme_manual] \<and>
   short_span \<in> set fixed_without_source \<and> source short_span = None \<and>
   set (entities (onEntitiesUpdate fixed_without_source initial_state)) \<union>
     set (manualEntities (onEntitiesUpdate fixed_without_source initial_state))
     \<noteq> set fixed_without_source"
  using entities_update_drops_other_sources [of fixed_without_source initial_state]
  by (simp add: onEntitiesUpdate_def fixed_without_source_def acme_manual_def corp_span_def
      short_span_def)

section \<open>The chunking settings\<close>

lemma range_input_bounds:
  "range_input lo hi stp k = Some v \<Longrightarrow> 0 \<le> stp \<Longrightarrow> lo \<le> v \<and> v \<le> hi"
  by (auto simp add: range_input_def Let_def split: if_splits)

lemma step_settings_in_range: "settings_in_range s \<Longrightarrow> settings_in_range (step s e)"
proof (cases e)
  case (ChunkSlider k)
  assume "settings_in_range s"
  then show ?thesis
    using ChunkSlider range_input_bounds [of 200 4000 100 k]
    by (auto simp add: settings_in_range_def split: option.splits)
next
  case (OverlapSlider k)
  assume "settings_in_range s"
  then show ?thesis
    using OverlapSlider range_input_bounds [of 0 200 10 k]
    by (auto simp add: settings_in_range_def split: option.splits)
qed (auto simp add: settings_in_range_def handleAddManualAnnotation_def onEntitiesUpdate_def
       Let_def split: option.splits)

lemma foldl_step_settings: "settings_in_range s \<Longrightarrow> settings_in_range (foldl step s evs)"
  by (induction evs arbitrary: s) (simp_all add: step_settings_in_range)

text \<open>
  C5, as the claim states it, fails: with the chunk size slider at its lowest value and
  the overlap slider at its highest, both are 200.
\<close>

theorem settings_overlap_counterexample:
  "\<not> overlap (run smallest_chunk_largest_overlap) < chunkSize (run smallest_chunk_largest_overlap)"
  by (simp add: run_smallest_chunk_largest_overlap)

text \<open>
  C5, amended. In every state the page can reach, the overlap is between 0 and 200 and the
  chunk size between 200 and 4000, so the overlap is at most the chunk size, and it is
  smaller except when both are 200.
\<close>

theorem settings_overlap_le_chunkSize:
  "0 \<le> overlap (run evs) \<and> overlap (run evs) \<le> 200 \<and>
   200 \<le> chunkSize (run evs) \<and> chunkSize (run evs) \<le> 4000 \<and>
   overlap (run evs) \<le> chunkSize (run evs) \<and>
   (overlap (run evs) < chunkSize (run evs) \<or>
    (chunkSize (run evs) = 200 \<and> overlap (run evs) = 200))"
proof -
  have "settings_in_range initial_state"
    by (simp add: settings_in_range_def initial_state_def)
  then have "settings_in_range (run evs)"
    unfolding run_def by (rule foldl_step_settings)
  then show ?thesis
    unfolding settings_in_range_def by linarith
qed

theorem settings_overlap_le_chunkSize_witness:
  "chunkSize (run smallest_chunk_largest_overlap) = 200 \<and>
   overlap (run smallest_chunk_largest_overlap) = 200 \<and>
   overlap (run smallest_chunk_largest_overlap) \<le> chunkSize (run smallest_chunk_largest_overlap)"
  using settings_overlap_le_chunkSize [of smallest_chunk_largest_overlap]
  by (simp add: run_smallest_chunk_largest_overlap)

section \<open>Removing an entity from the list\<close>

lemma refs_allocated_iff:
  "refs_allocated st \<longleftrightarrow>
     (\<forall>a \<in> set (entity_refs st). a < length (objects st)) \<and>
     (\<forall>a \<in> set (manual_refs st). a < length (objects st))"
  by (simp add: refs_allocated_def ball_Un)

lemma spread_all_props:
  assumes "spread_all src h rs = (h', as)"
  shows "length h' = length h + length rs \<and> take (length h) h' = h \<and>
         (\<forall>a \<in> set as. length h \<le> a \<and> a < length h')"
  using assms
proof (induction rs arbitrary: h h' as)
  case Nil
  then show ?case by simp
next
  case (Cons r rs)
  obtain h2 bs where sp: "spread_all src (h @ [(h ! r)\<lparr>source := Some src\<rparr>]) rs = (h2, bs)"
    by (cases "spread_all src (h @ [(h ! r)\<lparr>source := Some src\<rparr>]) rs")
  with Cons.prems have eq: "h' = h2" "as = length h # bs" by simp_all
  from Cons.IH [OF sp] have
    l: "length h2 = Suc (length h) + length rs" and
    t: "take (Suc (length h)) h2 = h @ [(h ! r)\<lparr>source := Some src\<rparr>]" and
    b: "\<forall>a \<in> set bs. Suc (length h) \<le> a \<and> a < length h2"
    by auto
  have "take (length h) h2 = take (length h) (take (Suc (length h)) h2)"
    by (simp add: min_def)
  also have "\<dots> = h" unfolding t by simp
  finally have "take (length h) h2 = h" .
  with l b eq show ?case by auto
qed

lemma spread_all_objects:
  assumes "spread_all src h rs = (h', as)" and "\<forall>r \<in> set rs. r < length h"
  shows "map (\<lambda>a. h' ! a) as = map (\<lambda>r. (h ! r)\<lparr>source := Some src\<rparr>) rs"
  using assms
proof (induction rs arbitrary: h h' as)
  case Nil
  then show ?case by simp
next
  case (Cons r rs)
  let ?h1 = "h @ [(h ! r)\<lparr>source := Some src\<rparr>]"
  obtain h2 bs where sp: "spread_all src ?h1 rs = (h2, bs)"
    by (cases "spread_all src ?h1 rs")
  with Cons.prems have eq: "h' = h2" "as = length h # bs" by simp_all
  have small: "\<forall>r \<in> set rs. r < length ?h1" using Cons.prems(2) by auto
  from spread_all_props [OF sp] have t: "take (length ?h1) h2 = ?h1" by simp
  have nth: "h2 ! i = ?h1 ! i" if "i < length ?h1" for i
    using that t by (metis nth_take)
  have "map (\<lambda>a. h2 ! a) bs = map (\<lambda>r. (?h1 ! r)\<lparr>source := Some src\<rparr>) rs"
    by (rule Cons.IH [OF sp small])
  also have "\<dots> = map (\<lambda>r. (h ! r)\<lparr>source := Some src\<rparr>) rs"
    using Cons.prems(2) by (auto simp add: nth_append)
  finally have tl: "map (\<lambda>a. h2 ! a) bs = map (\<lambda>r. (h ! r)\<lparr>source := Some src\<rparr>) rs" .
  have "h2 ! length h = (h ! r)\<lparr>source := Some src\<rparr>"
    using nth [of "length h"] by simp
  with tl eq show ?case by simp
qed

lemma map_sort_key_nth:
  "map g (sort_key (\<lambda>a. f (g a)) xs) = sort_key f (map g xs)"
proof (induction xs)
  case Nil
  then show ?case by simp
next
  case (Cons x xs)
  have ins: "map g (insort_key (\<lambda>a. f (g a)) x ys) = insort_key f (g x) (map g ys)" for ys
    by (induction ys) simp_all
  from Cons show ?case by (simp add: ins)
qed

lemma combinedEntities_refs_values:
  assumes "refs_allocated st" and "combinedEntities_refs st = (st', cs)"
  shows "map (\<lambda>a. objects st' ! a) cs =
           combinedEntities (map (\<lambda>a. objects st ! a) (entity_refs st))
                            (map (\<lambda>a. objects st ! a) (manual_refs st))"
proof -
  obtain h1 ls where s1: "spread_all ''llm'' (objects st) (entity_refs st) = (h1, ls)"
    by (cases "spread_all ''llm'' (objects st) (entity_refs st)")
  obtain h2 ms where s2: "spread_all ''manual'' h1 (manual_refs st) = (h2, ms)"
    by (cases "spread_all ''manual'' h1 (manual_refs st)")
  from assms(2) s1 s2 have st': "st' = st\<lparr>objects := h2\<rparr>"
    and cs: "cs = sort_key (\<lambda>a. start_char (h2 ! a)) (ls @ ms)"
    by (simp_all add: combinedEntities_refs_def)
  note p1 = spread_all_props [OF s1] and p2 = spread_all_props [OF s2]
  have a1: "\<forall>r \<in> set (entity_refs st). r < length (objects st)"
    and a2: "\<forall>r \<in> set (manual_refs st). r < length h1"
    using assms(1) p1 unfolding refs_allocated_iff by fastforce+
  have keep1: "h2 ! i = h1 ! i" if "i < length h1" for i
    using that p2 by (metis nth_take)
  have keep0: "h1 ! i = objects st ! i" if "i < length (objects st)" for i
    using that p1 by (metis nth_take)
  have "map (\<lambda>a. h2 ! a) ls = map (\<lambda>a. h1 ! a) ls"
    using p1 keep1 by auto
  also have "\<dots> = map (\<lambda>r. (objects st ! r)\<lparr>source := Some ''llm''\<rparr>) (entity_refs st)"
    by (rule spread_all_objects [OF s1 a1])
  finally have l: "map (\<lambda>a. h2 ! a) ls = map (\<lambda>r. (objects st ! r)\<lparr>source := Some ''llm''\<rparr>) (entity_refs st)" .
  have "map (\<lambda>a. h2 ! a) ms = map (\<lambda>r. (h1 ! r)\<lparr>source := Some ''manual''\<rparr>) (manual_refs st)"
    by (rule spread_all_objects [OF s2 a2])
  also have "\<dots> = map (\<lambda>r. (objects st ! r)\<lparr>source := Some ''manual''\<rparr>) (manual_refs st)"
    using assms(1) keep0 unfolding refs_allocated_iff by auto
  finally have m: "map (\<lambda>a. h2 ! a) ms = map (\<lambda>r. (objects st ! r)\<lparr>source := Some ''manual''\<rparr>) (manual_refs st)" .
  have "map (\<lambda>a. h2 ! a) cs = sort_key start_char (map (\<lambda>a. h2 ! a) (ls @ ms))"
    unfolding cs by (rule map_sort_key_nth)
  with l m st' show ?thesis
    by (simp add: combinedEntities_def comp_def)
qed


lemma combined_two_objects:
  "combinedEntities_refs two_objects =
     (two_objects\<lparr>objects := [corp_span, acme_manual, corp_span\<lparr>source := Some ''llm''\<rparr>, acme_manual]\<rparr>,
      [3, 2])"
  by (simp add: combinedEntities_refs_def two_objects_def corp_span_def acme_manual_def)

text \<open>
  C8. The entities of the rendered list are the copies that \<open>combinedEntities\<close> has
  allocated. Such a copy is none of the objects in the two lists of the state, so
  \<open>handleRemoveEntity\<close> filters nothing out: both lists stay as they are.
\<close>

theorem remove_combined_entity_changes_nothing:
  assumes "refs_allocated st" and "combinedEntities_refs st = (st', cs)" and "entity \<in> set cs"
  shows "handleRemoveEntity entity st' = st' \<and>
         entity_refs st' = entity_refs st \<and> manual_refs st' = manual_refs st \<and>
         entity \<notin> set (entity_refs st) \<and> entity \<notin> set (manual_refs st)"
proof -
  obtain h1 ls where s1: "spread_all ''llm'' (objects st) (entity_refs st) = (h1, ls)"
    by (cases "spread_all ''llm'' (objects st) (entity_refs st)")
  obtain h2 ms where s2: "spread_all ''manual'' h1 (manual_refs st) = (h2, ms)"
    by (cases "spread_all ''manual'' h1 (manual_refs st)")
  from assms(2) s1 s2 have st': "st' = st\<lparr>objects := h2\<rparr>"
    and cs: "cs = sort_key (\<lambda>a. start_char (h2 ! a)) (ls @ ms)"
    by (simp_all add: combinedEntities_refs_def)
  from spread_all_props [OF s1] spread_all_props [OF s2] assms(3) cs
  have fresh: "length (objects st) \<le> entity" by auto
  with assms(1) have out: "entity \<notin> set (entity_refs st)" "entity \<notin> set (manual_refs st)"
    unfolding refs_allocated_iff by fastforce+
  then have "filter (\<lambda>e. e \<noteq> entity) (entity_refs st) = entity_refs st"
    and "filter (\<lambda>e. e \<noteq> entity) (manual_refs st) = manual_refs st"
    by (auto simp add: filter_id_conv)
  with st' out show ?thesis
    by (simp add: handleRemoveEntity_def)
qed


theorem remove_combined_entity_changes_nothing_witness:
  "refs_allocated two_objects \<and>
   3 \<in> set (snd (combinedEntities_refs two_objects)) \<and>
   handleRemoveEntity 3 (fst (combinedEntities_refs two_objects)) =
     fst (combinedEntities_refs two_objects) \<and>
   entity_refs (fst (combinedEntities_refs two_objects)) = [0] \<and>
   manual_refs (fst (combinedEntities_refs two_objects)) = [1]"
proof -
  have a: "refs_allocated two_objects"
    by (simp add: refs_allocated_def two_objects_def)
  have m: "(3::nat) \<in> set [3, 2]"
    by simp
  have r: "entity_refs two_objects = [0]" "manual_refs two_objects = [1]"
    by (simp_all add: two_objects_def)
  from remove_combined_entity_changes_nothing [OF a combined_two_objects m] a show ?thesis
    by (simp add: combined_two_objects r)
qed

section \<open>The response of the fix endpoint\<close>


lemma second_on_fixed_annotations:
  "handleFix_second [corp_span] True response_with_fixed_annotations =
     \<lparr>onEntitiesUpdate_arg = Some (Data (JArr [corp_json])), validation_result = None,
      alert_shown = Some (FixCompleted (read_statistics (Data statistics_json)))\<rparr>"
  by (simp add: handleFix_second_def response_with_fixed_annotations_def statistics_json_def
      Let_def corp_json_def)



text \<open>
  The statistics that the alert shows for the example, and for statistics that are a
  string, of which \<open>fixed\<close> is the inherited method.
\<close>

lemma read_statistics_example:
  "read_statistics (Data statistics_json) =
     \<lparr>shown_total = Data (JNum 1), shown_already_correct = Data (JNum 1),
      shown_fixed = Data (JNum 0), shown_unfixable = Data (JNum 0),
      shown_multiple_matches = Data (JNum 0),
      shown_strategy_used = Data (JStr ''fuzzy_match'')\<rparr>"
  by (simp add: read_statistics_def statistics_json_def or_zero_def)

lemma read_statistics_string:
  "read_statistics (Data (JStr ''done'')) =
     \<lparr>shown_total = Undefined, shown_already_correct = Undefined,
      shown_fixed = StringPrototypeFixed, shown_unfixable = Undefined,
      shown_multiple_matches = Data (JNum 0), shown_strategy_used = Undefined\<rparr>"
  by (simp add: read_statistics_def or_zero_def)




section \<open>The Fixer is idempotent\<close>

lemma content_check_relocate: "content_check t (relocate t sp s e)"
  by (simp add: content_check_def relocate_def)

lemma fix_span_emits_valid: "fix_span snap t sp = (Some sp', out) \<Longrightarrow> validates t sp'"
  by (auto simp add: fix_span_def validates_def content_check_relocate
      split: if_splits option.splits prod.splits)

lemma fix_span_valid: "validates t sp \<Longrightarrow> fix_span snap t sp = (Some sp, AlreadyCorrect)"
  by (simp add: fix_span_def)

lemma fixed_entities_valid:
  "sp \<in> set (fixed_entities (fixer snap t spans)) \<Longrightarrow> validates t sp"
proof -
  assume "sp \<in> set (fixed_entities (fixer snap t spans))"
  then obtain x where "x \<in> set spans" and "fst (fix_span snap t x) = Some sp"
    by (auto simp add: fixer_def Let_def split: option.splits)
  then have "fix_span snap t x = (Some sp, snd (fix_span snap t x))"
    by (metis prod.collapse)
  then show ?thesis
    by (rule fix_span_emits_valid)
qed

lemma fixer_valid_spans:
  assumes "\<forall>sp \<in> set spans. validates t sp"
  shows "fixer snap t spans =
           \<lparr>fixed_entities = spans,
            fix_statistics =
              \<lparr>total_spans = length spans, already_correct = length spans, fixed = 0,
               unfixable = 0, multiple_matches = 0, strategy_used = []\<rparr>\<rparr>"
proof -
  have m: "map (fix_span snap t) spans = map (\<lambda>sp. (Some sp, AlreadyCorrect)) spans"
    using assms by (simp add: fix_span_valid)
  show ?thesis
    unfolding fixer_def Let_def m by (simp add: comp_def)
qed

text \<open>
  The range check on a proposal rejects nothing that the exact re-search finds for a span
  with a non-empty text, and nothing that the boundary snap finds: an occurrence lies
  inside the text, and the relocated span carries the text that was searched.
\<close>

lemma closest_to_member: "closest_to s ps = Some p \<Longrightarrow> p \<in> set ps"
  by (induction ps arbitrary: p) (auto split: option.splits if_splits)

lemma occurrences_fit:
  "p \<in> set (occurrences needle t) \<Longrightarrow> p + length needle \<le> length t"
  by (auto simp add: occurrences_def)

lemma exact_research_in_range:
  assumes "etext sp \<noteq> []" and "exact_research t sp = Some (s, e, how)"
  shows "range_check t (relocate t sp s e) \<and> etext (relocate t sp s e) = etext sp"
proof -
  from assms(2) obtain p where c: "closest_to (start_char sp) (occurrences (etext sp) t) = Some p"
    and s: "s = p" and e: "e = p + length (etext sp)"
    by (auto simp add: exact_research_def Let_def split: option.splits)
  from c have mem: "p \<in> set (occurrences (etext sp) t)"
    by (rule closest_to_member)
  then have fit: "p + length (etext sp) \<le> length t"
    by (rule occurrences_fit)
  from mem have "take (length (etext sp)) (drop p t) = etext sp"
    by (simp add: occurrences_def)
  with assms(1) fit s e show ?thesis
    by (simp add: range_check_def relocate_def slice_def)
qed

lemma boundary_snap_in_range:
  assumes "boundary_snap window t sp = Some (s, e)"
  shows "range_check t (relocate t sp s e) \<and>
         etext (relocate t sp s e) = trim_boundary (etext sp)"
proof -
  let ?tr = "trim_boundary (etext sp)"
  from assms have ne: "?tr \<noteq> []"
    by (auto simp add: boundary_snap_def Let_def split: if_splits)
  with assms obtain p where
    c: "closest_to (start_char sp)
          (filter (\<lambda>p. \<bar>int p - start_char sp\<bar> \<le> int window) (occurrences ?tr t)) = Some p"
    and s: "s = p" and e: "e = p + length ?tr"
    by (auto simp add: boundary_snap_def Let_def split: option.splits if_splits)
  from closest_to_member [OF c] have mem: "p \<in> set (occurrences ?tr t)"
    by simp
  then have fit: "p + length ?tr \<le> length t"
    by (rule occurrences_fit)
  from mem have "take (length ?tr) (drop p t) = ?tr"
    by (simp add: occurrences_def)
  with ne fit s e show ?thesis
    by (simp add: range_check_def relocate_def slice_def)
qed

text \<open>The second and the third scenario of the specification.\<close>

lemma scenario_exact_match:
  "fixer (boundary_snap 10) sentence [off_by_one, not_in_text, corp_span] =
     \<lparr>fixed_entities = [off_by_one\<lparr>end_char := 4\<rparr>, corp_span],
      fix_statistics =
        \<lparr>total_spans = 3, already_correct = 1, fixed = 1, unfixable = 1,
         multiple_matches = 0, strategy_used = [exact_match]\<rparr>\<rparr>"
  by code_simp

lemma scenario_closest_occurrence:
  "fixer (boundary_snap 10) two_acmes [near_second] =
     \<lparr>fixed_entities = [near_second\<lparr>start_char := 40, end_char := 44\<rparr>],
      fix_statistics =
        \<lparr>total_spans = 1, already_correct = 0, fixed = 1, unfixable = 0,
         multiple_matches = 2, strategy_used = [closest_occurrence 2]\<rparr>\<rparr>"
  by code_simp

text \<open>
  C2. Whatever the text, the spans and the fuzzy matcher, running the Fixer on the fixed
  set of a run gives that fixed set again, and the statistics of this second run count
  every span as already correct: nothing is fixed, nothing is unfixable.
\<close>

theorem fixer_idempotent:
  "fixer snap t (fixed_entities (fixer snap t spans)) =
     \<lparr>fixed_entities = fixed_entities (fixer snap t spans),
      fix_statistics =
        \<lparr>total_spans = length (fixed_entities (fixer snap t spans)),
         already_correct = length (fixed_entities (fixer snap t spans)),
         fixed = 0, unfixable = 0, multiple_matches = 0, strategy_used = []\<rparr>\<rparr>"
  by (rule fixer_valid_spans) (simp add: fixed_entities_valid)

theorem fixer_idempotent_witness:
  "fixed_entities (fixer (boundary_snap 10) sentence [off_by_one, not_in_text, corp_span]) =
     [off_by_one\<lparr>end_char := 4\<rparr>, corp_span] \<and>
   fixer (boundary_snap 10) sentence [off_by_one\<lparr>end_char := 4\<rparr>, corp_span] =
     \<lparr>fixed_entities = [off_by_one\<lparr>end_char := 4\<rparr>, corp_span],
      fix_statistics =
        \<lparr>total_spans = 2, already_correct = 2, fixed = 0, unfixable = 0,
         multiple_matches = 0, strategy_used = []\<rparr>\<rparr>"
  using fixer_idempotent [of "boundary_snap 10" sentence "[off_by_one, not_in_text, corp_span]"]
  by (simp add: scenario_exact_match)

end
